theory Spec2Isabelle
  imports Main "HOL-Library.Multiset"
begin

section \<open>Data model\<close>

text \<open>
  The background script (\<^verbatim>\<open>src/background.js\<close>) keeps the custom colors twice: under the
  key \<^verbatim>\<open>customColors\<close> of \<^verbatim>\<open>storage.local\<close> and in the global array
  \<^verbatim>\<open>currentColors\<close> (the in-memory mirror). A color record is the object literal built
  in the \<^verbatim>\<open>addColor\<close> handler: \<^verbatim>\<open>{ id, nameKey, colorNumber, color }\<close>.

  Modelling choices:
  \<^item> strings are \<open>string\<close>; \<^verbatim>\<open>toLowerCase\<close> and \<^verbatim>\<open>toUpperCase\<close> map the ASCII
    letters (color values are ASCII hex strings);
  \<^item> \<open>colorNumber\<close> is a \<open>nat\<close>; \<open>0\<close> stands for every falsy value (the code only
    tests \<^verbatim>\<open>!c.colorNumber\<close>), so a record without a number has \<open>colorNumber = 0\<close>;
  \<^item> \<^verbatim>\<open>storage.local\<close> is typed: the key \<^verbatim>\<open>customColors\<close> holds an array of color
    records or is absent, a page URL holds an array of highlight groups, and the key
    \<^verbatim>\<open>`${url}_meta`\<close> is the entry \<open>url\<close> of a map of its own (the three kinds of
    keys are assumed not to collide);
  \<^item> the platform calls \<^verbatim>\<open>storage.local.get/set/remove\<close>, \<^verbatim>\<open>tabs.query\<close>,
    \<^verbatim>\<open>contextMenus.*\<close> and \<^verbatim>\<open>commands.getAll\<close> are taken to resolve; only
    \<^verbatim>\<open>tabs.sendMessage\<close> can reject (a tab without a listener);
  \<^item> every handler returns its response, the new state and the list of effects it
    performed, in order; a request is handled to completion before the next one starts
    (the interleaving of two asynchronous handlers is not modelled).
\<close>

record color_record =
  id_of :: string
  nameKey :: string
  colorNumber :: nat
  color :: string

text \<open>A highlight group is opaque to the background script but for its \<^verbatim>\<open>groupId\<close>.\<close>

record hgroup =
  groupId :: string
  payload :: string

record page_meta =
  title :: string
  lastUpdated :: string

record state =
  storage_customColors :: "color_record list option"
  storage_highlights :: "string \<rightharpoonup> hgroup list"
  storage_meta :: "string \<rightharpoonup> page_meta"
  currentColors :: "color_record list"

text \<open>
  What a handler reads from the platform while it runs: \<^verbatim>\<open>Date.now()\<close>,
  \<^verbatim>\<open>new Date().toISOString()\<close> and the open tabs (the answer of \<^verbatim>\<open>tabs.query({})\<close>,
  in order). \<open>tab_listening\<close> says whether \<^verbatim>\<open>tabs.sendMessage\<close> to the tab resolves.
\<close>

record tab =
  tab_id :: nat
  tab_url :: string
  tab_title :: string
  tab_active :: bool
  tab_listening :: bool

record env =
  now :: nat
  now_iso :: string
  tabs :: "tab list"

datatype outbound =
    ColorsUpdated "color_record list"
  | RefreshHighlights "hgroup list"
  | Highlight string

datatype effect =
    StorageSetCustomColors "color_record list"
  | StorageSetHighlights string "hgroup list"
  | StorageSetMeta string page_meta
  | StorageRemove "string list"
  | ContextMenusCreated "string list"
  | Delivered nat outbound
  | DeliveryFailed nat outbound
  | NoRecipient outbound

record response =
  success :: bool
  error :: "string option"
  colors :: "color_record list option"
  noCustomColors :: bool
  highlights :: "hgroup list option"

datatype message =
    AddColor "string option"
  | DeleteColor "string option"
  | ClearCustomColors
  | CustomColorsUpdated
  | SaveHighlights string "hgroup list"
  | DeleteHighlight string string bool
  | ClearAllHighlights string bool

section \<open>Constants and string helpers\<close>

definition COLORS :: "color_record list" where
  "COLORS = []"

definition MAX_CUSTOM_COLORS :: nat where
  "MAX_CUSTOM_COLORS = 20"

definition LEGACY_COMMAND_NAMES :: "string list" where
  "LEGACY_COMMAND_NAMES =
     [''highlight_yellow'', ''highlight_green'', ''highlight_blue'', ''highlight_pink'',
      ''highlight_orange'']"

definition upper_letters :: string where
  "upper_letters = ''ABCDEFGHIJKLMNOPQRSTUVWXYZ''"

definition lower_letters :: string where
  "lower_letters = ''abcdefghijklmnopqrstuvwxyz''"

definition lower_char :: "char \<Rightarrow> char" where
  "lower_char c = (case map_of (zip upper_letters lower_letters) c of Some d \<Rightarrow> d | None \<Rightarrow> c)"

definition upper_char :: "char \<Rightarrow> char" where
  "upper_char c = (case map_of (zip lower_letters upper_letters) c of Some d \<Rightarrow> d | None \<Rightarrow> c)"

definition toLowerCase :: "string \<Rightarrow> string" where
  "toLowerCase s = map lower_char s"

definition toUpperCase :: "string \<Rightarrow> string" where
  "toUpperCase s = map upper_char s"

text \<open>Decimal rendering of a number inside a template literal.\<close>

definition digit_char :: "nat \<Rightarrow> char" where
  "digit_char d = ''0123456789'' ! d"

function show_nat :: "nat \<Rightarrow> string" where
  "show_nat n = (if n < 10 then [digit_char n] else show_nat (n div 10) @ [digit_char (n mod 10)])"
  by pat_completeness auto
termination
  by (relation "measure (\<lambda>n. n)") auto

declare show_nat.simps [simp del]

section \<open>Responses\<close>

definition respond :: "bool \<Rightarrow> response" where
  "respond ok = \<lparr>success = ok, error = None, colors = None, noCustomColors = False,
     highlights = None\<rparr>"

section \<open>Side effects shared by the handlers\<close>

text \<open>
  \<^verbatim>\<open>tabs.sendMessage(tab.id, msg)\<close> inside \<^verbatim>\<open>try { ... } catch (error) { debugLog(...) }\<close>:
  the rejection is the left injection, and the catch turns it into a logged failure.
\<close>

definition sendMessage :: "tab \<Rightarrow> outbound \<Rightarrow> unit + unit" where
  "sendMessage t m = (if tab_listening t then Inr () else Inl ())"

definition try_sendMessage :: "tab \<Rightarrow> outbound \<Rightarrow> effect" where
  "try_sendMessage t m =
     (case sendMessage t m of Inr _ \<Rightarrow> Delivered (tab_id t) m | Inl _ \<Rightarrow> DeliveryFailed (tab_id t) m)"

text \<open>
  \<^verbatim>\<open>for (const tab of tabs) { try { await sendMessage(tab.id, {action: 'colorsUpdated', colors}) } catch ... }\<close>
\<close>

fun broadcast :: "tab list \<Rightarrow> color_record list \<Rightarrow> effect list" where
  "broadcast [] cs = []"
| "broadcast (t # ts) cs = try_sendMessage t (ColorsUpdated cs) # broadcast ts cs"

text \<open>
  \<^verbatim>\<open>createOrUpdateContextMenus\<close>: the parent entry, then one child per color of the
  mirror with id \<^verbatim>\<open>`highlight-${color.id}`\<close>. Titles (localised names and shortcut
  annotations) come from the platform and are left out.
\<close>

definition createOrUpdateContextMenus :: "color_record list \<Rightarrow> effect" where
  "createOrUpdateContextMenus cs =
     ContextMenusCreated (''highlight-text'' # map (\<lambda>c. ''highlight-'' @ id_of c) cs)"

text \<open>\<^verbatim>\<open>stored.customColors || []\<close>\<close>

definition stored_customColors :: "state \<Rightarrow> color_record list" where
  "stored_customColors st = (case storage_customColors st of None \<Rightarrow> [] | Some cs \<Rightarrow> cs)"

section \<open>The color handlers of \<^verbatim>\<open>runtime.onMessage\<close>\<close>

text \<open>\<^verbatim>\<open>customColors.some(c => c.color.toLowerCase() === newColorValue.toLowerCase())\<close>\<close>

definition color_exists :: "color_record list \<Rightarrow> string \<Rightarrow> bool" where
  "color_exists customColors newColorValue =
     list_ex (\<lambda>c. toLowerCase (color c) = toLowerCase newColorValue) customColors"

definition newColorObj :: "env \<Rightarrow> color_record list \<Rightarrow> string \<Rightarrow> color_record" where
  "newColorObj e customColors newColorValue =
     \<lparr>id_of = ''custom_'' @ show_nat (now e), nameKey = ''customColor'',
      colorNumber = length customColors + 1, color = newColorValue\<rparr>"

text \<open>
  The \<^verbatim>\<open>addColor\<close> branch (\<^verbatim>\<open>background.js\<close>, lines 423 to 473). The checks come in
  the source's order: missing value, capacity, duplicate. The new object is pushed onto the
  array read from storage and onto the mirror; the array is written back, the menus are
  rebuilt and the mirror is broadcast. The duplicate falls through to the same final
  \<^verbatim>\<open>sendResponse({ success: true, colors: currentColors })\<close>.
\<close>

definition onMessage_addColor :: "env \<Rightarrow> string option \<Rightarrow> state \<Rightarrow> response \<times> state \<times> effect list" where
  "onMessage_addColor e newColorValue st =
     (case newColorValue of
        None \<Rightarrow> (respond False, st, [])
      | Some v \<Rightarrow>
          if v = [] then (respond False, st, [])
          else
            let customColors = stored_customColors st in
            if length customColors \<ge> MAX_CUSTOM_COLORS then
              ((respond False)\<lparr>error := Some ''Maximum color limit reached'',
                  colors := Some (currentColors st)\<rparr>, st, [])
            else if \<not> color_exists customColors v then
              let obj = newColorObj e customColors v;
                  customColors' = customColors @ [obj];
                  mirror = currentColors st @ [obj];
                  st' = st\<lparr>storage_customColors := Some customColors', currentColors := mirror\<rparr>
              in ((respond True)\<lparr>colors := Some mirror\<rparr>, st',
                  StorageSetCustomColors customColors' # createOrUpdateContextMenus mirror
                    # broadcast (tabs e) mirror)
            else ((respond True)\<lparr>colors := Some (currentColors st)\<rparr>, st, []))"

text \<open>\<^verbatim>\<open>customColors.findIndex(c => c.id === colorId)\<close>; \<open>None\<close> is \<^verbatim>\<open>-1\<close>.\<close>

fun findIndex :: "('a \<Rightarrow> bool) \<Rightarrow> 'a list \<Rightarrow> nat option" where
  "findIndex P [] = None"
| "findIndex P (x # xs) = (if P x then Some 0 else map_option Suc (findIndex P xs))"

text \<open>\<^verbatim>\<open>customColors.splice(colorIndex, 1)\<close>\<close>

definition splice1 :: "nat \<Rightarrow> 'a list \<Rightarrow> 'a list" where
  "splice1 i xs = take i xs @ drop (Suc i) xs"

text \<open>\<^verbatim>\<open>customColors.forEach((color, index) => { color.colorNumber = index + 1; })\<close>\<close>

definition renumber :: "color_record list \<Rightarrow> color_record list" where
  "renumber cs = map (\<lambda>(index, c). c\<lparr>colorNumber := index + 1\<rparr>) (enumerate 0 cs)"

text \<open>The \<^verbatim>\<open>deleteColor\<close> branch (lines 372 to 420).\<close>

definition onMessage_deleteColor :: "env \<Rightarrow> string option \<Rightarrow> state \<Rightarrow> response \<times> state \<times> effect list" where
  "onMessage_deleteColor e colorId st =
     (case colorId of
        None \<Rightarrow> ((respond False)\<lparr>error := Some ''Color ID is required''\<rparr>, st, [])
      | Some cid \<Rightarrow>
          if cid = [] then ((respond False)\<lparr>error := Some ''Color ID is required''\<rparr>, st, [])
          else
            let customColors = stored_customColors st in
            (case findIndex (\<lambda>c. id_of c = cid) customColors of
               None \<Rightarrow> ((respond False)\<lparr>error := Some ''Color not found''\<rparr>, st, [])
             | Some colorIndex \<Rightarrow>
                 let customColors' = renumber (splice1 colorIndex customColors);
                     st' = st\<lparr>storage_customColors := Some customColors',
                              currentColors := customColors'\<rparr>
                 in ((respond True)\<lparr>colors := Some customColors'\<rparr>, st',
                     StorageSetCustomColors customColors' # createOrUpdateContextMenus customColors'
                       # broadcast (tabs e) customColors')))"

text \<open>The \<^verbatim>\<open>clearCustomColors\<close> branch (lines 337 to 369).\<close>

definition onMessage_clearCustomColors :: "env \<Rightarrow> state \<Rightarrow> response \<times> state \<times> effect list" where
  "onMessage_clearCustomColors e st =
     (let customColors = stored_customColors st in
      if length customColors = 0 then ((respond True)\<lparr>noCustomColors := True\<rparr>, st, [])
      else
        let st' = st\<lparr>storage_customColors := Some [], currentColors := []\<rparr>
        in (respond True, st',
            StorageSetCustomColors [] # createOrUpdateContextMenus [] # broadcast (tabs e) []))"

text \<open>
  \<^verbatim>\<open>loadCustomColors\<close>: records without a number get \<^verbatim>\<open>index + 1\<close>, the repaired
  array is written back only when one was repaired, and the mirror is replaced.
\<close>

definition assign_missing_numbers :: "color_record list \<Rightarrow> color_record list" where
  "assign_missing_numbers cs =
     map (\<lambda>(index, c). if colorNumber c = 0 then c\<lparr>colorNumber := index + 1\<rparr> else c)
       (enumerate 0 cs)"

definition loadCustomColors :: "state \<Rightarrow> state \<times> effect list" where
  "loadCustomColors st =
     (let customColors = stored_customColors st;
          needsUpdate = list_ex (\<lambda>c. colorNumber c = 0) customColors;
          customColors' = assign_missing_numbers customColors
      in if needsUpdate
         then (st\<lparr>storage_customColors := Some customColors', currentColors := customColors'\<rparr>,
               [StorageSetCustomColors customColors'])
         else (st\<lparr>currentColors := customColors'\<rparr>, []))"

text \<open>The \<^verbatim>\<open>customColorsUpdated\<close> branch (lines 476 to 495).\<close>

definition onMessage_customColorsUpdated :: "env \<Rightarrow> state \<Rightarrow> response \<times> state \<times> effect list" where
  "onMessage_customColorsUpdated e st =
     (let (st', written) = loadCustomColors st
      in (respond True, st',
          written @ createOrUpdateContextMenus (currentColors st')
            # broadcast (tabs e) (currentColors st')))"

section \<open>The highlight handlers of \<^verbatim>\<open>runtime.onMessage\<close>\<close>

text \<open>\<^verbatim>\<open>if (!url) return; await storage.local.remove([url, `${url}_meta`])\<close>\<close>

definition cleanupEmptyHighlightData :: "string \<Rightarrow> state \<Rightarrow> state \<times> effect list" where
  "cleanupEmptyHighlightData url st =
     (if url = [] then (st, [])
      else (st\<lparr>storage_highlights := (storage_highlights st)(url := None),
               storage_meta := (storage_meta st)(url := None)\<rparr>,
            [StorageRemove [url, url @ ''_meta'']]))"

text \<open>
  \<^verbatim>\<open>notifyTabHighlightsRefresh\<close>: the first tab that \<^verbatim>\<open>tabs.query({ url })\<close> returns
  (here: the tabs showing exactly this URL) is sent the highlights; with no such tab
  \<^verbatim>\<open>tabs[0].id\<close> throws inside the \<^verbatim>\<open>try\<close> and is logged.
\<close>

definition notifyTabHighlightsRefresh :: "env \<Rightarrow> hgroup list \<Rightarrow> string \<Rightarrow> effect list" where
  "notifyTabHighlightsRefresh e hs url =
     (case filter (\<lambda>t. tab_url t = url) (tabs e) of
        [] \<Rightarrow> [NoRecipient (RefreshHighlights hs)]
      | t # _ \<Rightarrow> [try_sendMessage t (RefreshHighlights hs)])"

text \<open>
  The message of the \<^verbatim>\<open>TypeError\<close> that the outer \<^verbatim>\<open>catch\<close> puts into the response
  (its wording is the engine's).
\<close>

definition type_error_message :: string where
  "type_error_message = ''TypeError''"

text \<open>
  The \<^verbatim>\<open>saveHighlights\<close> branch (lines 498 to 529). With highlights and no active
  tab, \<^verbatim>\<open>currentTab.title\<close> throws after the data was written and before the metadata
  is; the outer \<^verbatim>\<open>catch\<close> answers.
\<close>

definition onMessage_saveHighlights ::
  "env \<Rightarrow> string \<Rightarrow> hgroup list \<Rightarrow> state \<Rightarrow> response \<times> state \<times> effect list" where
  "onMessage_saveHighlights e url hs st =
     (if length hs > 0 then
        let st1 = st\<lparr>storage_highlights := (storage_highlights st)(url \<mapsto> hs)\<rparr> in
        (case filter tab_active (tabs e) of
           [] \<Rightarrow> ((respond False)\<lparr>error := Some type_error_message\<rparr>, st1,
                  [StorageSetHighlights url hs])
         | currentTab # _ \<Rightarrow>
             let metaData = \<lparr>title = tab_title currentTab, lastUpdated = now_iso e\<rparr>;
                 st2 = st1\<lparr>storage_meta := (storage_meta st1)(url \<mapsto> metaData)\<rparr>
             in (respond True, st2, [StorageSetHighlights url hs, StorageSetMeta url metaData]))
      else
        let (st', removed) = cleanupEmptyHighlightData url st
        in (respond True, st', removed))"

text \<open>The \<^verbatim>\<open>deleteHighlight\<close> branch (lines 532 to 561).\<close>

definition onMessage_deleteHighlight ::
  "env \<Rightarrow> string \<Rightarrow> string \<Rightarrow> bool \<Rightarrow> state \<Rightarrow> response \<times> state \<times> effect list" where
  "onMessage_deleteHighlight e url gid notifyRefresh st =
     (let hs = (case storage_highlights st url of None \<Rightarrow> [] | Some hs \<Rightarrow> hs);
          updatedHighlights = filter (\<lambda>g. groupId g \<noteq> gid) hs
      in if length updatedHighlights > 0 then
           ((respond True)\<lparr>highlights := Some updatedHighlights\<rparr>,
            st\<lparr>storage_highlights := (storage_highlights st)(url \<mapsto> updatedHighlights)\<rparr>,
            StorageSetHighlights url updatedHighlights
              # (if notifyRefresh then notifyTabHighlightsRefresh e updatedHighlights url else []))
         else
           let (st', removed) = cleanupEmptyHighlightData url st
           in ((respond True)\<lparr>highlights := Some []\<rparr>, st',
               removed @ (if notifyRefresh then notifyTabHighlightsRefresh e [] url else [])))"

text \<open>The \<^verbatim>\<open>clearAllHighlights\<close> branch (lines 564 to 577).\<close>

definition onMessage_clearAllHighlights ::
  "env \<Rightarrow> string \<Rightarrow> bool \<Rightarrow> state \<Rightarrow> response \<times> state \<times> effect list" where
  "onMessage_clearAllHighlights e url notifyRefresh st =
     (let (st', removed) = cleanupEmptyHighlightData url st
      in (respond True, st',
          removed @ (if notifyRefresh then notifyTabHighlightsRefresh e [] url else [])))"

section \<open>The message listener\<close>

fun onMessage :: "env \<Rightarrow> message \<Rightarrow> state \<Rightarrow> response \<times> state \<times> effect list" where
  "onMessage e ClearCustomColors st = onMessage_clearCustomColors e st"
| "onMessage e (DeleteColor colorId) st = onMessage_deleteColor e colorId st"
| "onMessage e (AddColor newColorValue) st = onMessage_addColor e newColorValue st"
| "onMessage e CustomColorsUpdated st = onMessage_customColorsUpdated e st"
| "onMessage e (SaveHighlights url hs) st = onMessage_saveHighlights e url hs st"
| "onMessage e (DeleteHighlight url gid notifyRefresh) st =
     onMessage_deleteHighlight e url gid notifyRefresh st"
| "onMessage e (ClearAllHighlights url notifyRefresh) st =
     onMessage_clearAllHighlights e url notifyRefresh st"

text \<open>
  The state of a fresh installation (\<^verbatim>\<open>let currentColors = [...COLORS]\<close>, nothing stored)
  and a run of the listener over a sequence of requests, one handled to completion
  before the next.
\<close>

definition init_state :: state where
  "init_state = \<lparr>storage_customColors = None, storage_highlights = Map.empty,
     storage_meta = Map.empty, currentColors = COLORS\<rparr>"

fun run :: "(env \<times> message) list \<Rightarrow> state \<Rightarrow> state" where
  "run [] st = st"
| "run ((e, m) # ops) st = run ops (fst (snd (onMessage e m st)))"

section \<open>The shortcut listener \<^verbatim>\<open>commands.onCommand\<close>\<close>

text \<open>\<^verbatim>\<open>s.replace(pat, rep)\<close> with a string pattern: the first occurrence only.\<close>

fun replace_first :: "string \<Rightarrow> string \<Rightarrow> string \<Rightarrow> string" where
  "replace_first pat rep [] = (if pat = [] then rep else [])"
| "replace_first pat rep (c # cs) =
     (if take (length pat) (c # cs) = pat then rep @ drop (length pat) (c # cs)
      else c # replace_first pat rep cs)"

text \<open>
  \<^verbatim>\<open>parseInt\<close> on the strings that reach it here: the value of the leading decimal
  digits, \<open>None\<close> (\<^verbatim>\<open>NaN\<close>) when there is none. Signs, white space and the
  \<^verbatim>\<open>0x\<close> prefix are not modelled.
\<close>

definition digit_value :: "char \<Rightarrow> nat option" where
  "digit_value c = findIndex (\<lambda>d. d = c) ''0123456789''"

definition parseInt :: "string \<Rightarrow> nat option" where
  "parseInt s =
     (let ds = takeWhile (\<lambda>c. digit_value c \<noteq> None) s
      in if ds = [] then None
         else Some (foldl (\<lambda>a c. 10 * a + (case digit_value c of Some d \<Rightarrow> d | None \<Rightarrow> 0)) 0 ds))"

text \<open>The \<^verbatim>\<open>switch (command)\<close>; \<open>None\<close> is \<^verbatim>\<open>targetColor = null\<close>.\<close>

definition targetColor :: "string \<Rightarrow> color_record list \<Rightarrow> string option" where
  "targetColor command cs =
     (if command = ''highlight_yellow'' then
        (if length cs \<ge> 1 then Some (color (cs ! 0)) else None)
      else if command = ''highlight_green'' then
        (if length cs \<ge> 2 then Some (color (cs ! 1)) else None)
      else if command = ''highlight_blue'' then
        (if length cs \<ge> 3 then Some (color (cs ! 2)) else None)
      else if command = ''highlight_pink'' then
        (if length cs \<ge> 4 then Some (color (cs ! 3)) else None)
      else if command = ''highlight_orange'' then
        (if length cs \<ge> 5 then Some (color (cs ! 4)) else None)
      else if command \<in> set [''highlight_custom_1'', ''highlight_custom_2'',
          ''highlight_custom_3'', ''highlight_custom_4'', ''highlight_custom_5''] then
        (case parseInt (replace_first ''highlight_custom_'' [] command) of
           None \<Rightarrow> None
         | Some slotNum \<Rightarrow>
             let colorIndex = 5 + slotNum - 1
             in if length cs > colorIndex then Some (color (cs ! colorIndex)) else None)
      else None)"

text \<open>
  The listener: nothing without an active tab; a highlight instruction is sent to the
  active tab only when \<^verbatim>\<open>targetColor\<close> is truthy.
\<close>

definition onCommand :: "env \<Rightarrow> string \<Rightarrow> state \<Rightarrow> effect list" where
  "onCommand e command st =
     (case filter tab_active (tabs e) of
        [] \<Rightarrow> []
      | activeTab # _ \<Rightarrow>
          (case targetColor command (currentColors st) of
             None \<Rightarrow> []
           | Some c \<Rightarrow> if c = [] then [] else [try_sendMessage activeTab (Highlight c)]))"

section \<open>The options page's \<^verbatim>\<open>addColor\<close> (\<^verbatim>\<open>src/shortcuts-settings.js\<close>)\<close>

text \<open>
  The picker writes \<^verbatim>\<open>storage.local\<close> itself and then sends
  \<^verbatim>\<open>customColorsUpdated\<close> to the background script. Both refusals are an
  \<^verbatim>\<open>alert\<close> and an early return.
\<close>

definition picker_addColor :: "env \<Rightarrow> string \<Rightarrow> state \<Rightarrow> state \<times> effect list" where
  "picker_addColor e colorValue st =
     (let customColors = stored_customColors st in
      if length customColors \<ge> MAX_CUSTOM_COLORS then (st, [])
      else if color_exists customColors colorValue then (st, [])
      else
        let newColor = \<lparr>id_of = ''custom_'' @ show_nat (now e), nameKey = ''customColor'',
                colorNumber = length customColors + 1, color = toUpperCase colorValue\<rparr>;
            customColors' = customColors @ [newColor]
        in (st\<lparr>storage_customColors := Some customColors'\<rparr>,
            [StorageSetCustomColors customColors']))"

section \<open>Properties stated over the model\<close>

text \<open>Dense numbering: the numbers of the collection, in order, are \<open>1, 2, ..., N\<close>.\<close>

definition dense_numbers :: "color_record list \<Rightarrow> bool" where
  "dense_numbers cs = (map colorNumber cs = [1..<Suc (length cs)])"

definition store_invariant :: "state \<Rightarrow> bool" where
  "store_invariant st =
     (currentColors st = stored_customColors st
      \<and> dense_numbers (stored_customColors st)
      \<and> length (stored_customColors st) \<le> MAX_CUSTOM_COLORS)"

fun is_add_or_delete :: "message \<Rightarrow> bool" where
  "is_add_or_delete (AddColor _) = True"
| "is_add_or_delete (DeleteColor _) = True"
| "is_add_or_delete _ = False"

fun is_color_message :: "message \<Rightarrow> bool" where
  "is_color_message (AddColor _) = True"
| "is_color_message (DeleteColor _) = True"
| "is_color_message ClearCustomColors = True"
| "is_color_message CustomColorsUpdated = True"
| "is_color_message _ = False"

text \<open>
  The tabs to which a \<^verbatim>\<open>colorsUpdated\<close> delivery was attempted, and those it reached,
  read off a handler's effects.
\<close>

fun attempted :: "effect list \<Rightarrow> nat list" where
  "attempted [] = []"
| "attempted (Delivered n (ColorsUpdated cs) # fx) = n # attempted fx"
| "attempted (DeliveryFailed n (ColorsUpdated cs) # fx) = n # attempted fx"
| "attempted (x # fx) = attempted fx"

fun notified :: "effect list \<Rightarrow> nat list" where
  "notified [] = []"
| "notified (Delivered n (ColorsUpdated cs) # fx) = n # notified fx"
| "notified (x # fx) = notified fx"

text \<open>The same environment with other listeners behind its tabs.\<close>

definition set_listeners :: "(tab \<Rightarrow> bool) \<Rightarrow> env \<Rightarrow> env" where
  "set_listeners f e = e\<lparr>tabs := map (\<lambda>t. t\<lparr>tab_listening := f t\<rparr>) (tabs e)\<rparr>"

text \<open>
  After a handler ran, neither the URL's data key nor its \<^verbatim>\<open>_meta\<close> key is in storage,
  and both were removed by one \<^verbatim>\<open>storage.local.remove\<close> call.
\<close>

definition removed_together :: "string \<Rightarrow> response \<times> state \<times> effect list \<Rightarrow> bool" where
  "removed_together url r =
     (storage_highlights (fst (snd r)) url = None \<and> storage_meta (fst (snd r)) url = None
      \<and> StorageRemove [url, url @ ''_meta''] \<in> set (snd (snd r)))"

section \<open>Example inputs\<close>

definition page :: "nat \<Rightarrow> bool \<Rightarrow> bool \<Rightarrow> tab" where
  "page n act listening =
     \<lparr>tab_id = n, tab_url = ''https://example.org/'' @ show_nat n, tab_title = ''page'',
      tab_active = act, tab_listening = listening\<rparr>"

definition env_at :: "nat \<Rightarrow> tab list \<Rightarrow> env" where
  "env_at t ts = \<lparr>now = t, now_iso = ''2024-01-01T00:00:00.000Z'', tabs = ts\<rparr>"

text \<open>Three open pages; the second has no listener.\<close>

definition three_pages :: "tab list" where
  "three_pages = [page 1 True True, page 2 False False, page 3 False True]"

definition sample_color :: "nat \<Rightarrow> string \<Rightarrow> color_record" where
  "sample_color n v =
     \<lparr>id_of = ''custom_'' @ show_nat n, nameKey = ''customColor'', colorNumber = n, color = v\<rparr>"

definition with_colors :: "color_record list \<Rightarrow> state" where
  "with_colors cs = init_state\<lparr>storage_customColors := Some cs, currentColors := cs\<rparr>"

definition three_colors :: "color_record list" where
  "three_colors =
     [sample_color 1 ''#FF0000'', sample_color 2 ''#00FF00'', sample_color 3 ''#0000FF'']"

definition twenty_colors :: "color_record list" where
  "twenty_colors = map (\<lambda>n. sample_color n (''#'' @ show_nat (100000 + n))) [1..<21]"

text \<open>
  The scenario of the specification: add \<^verbatim>\<open>#FF0000\<close>, add \<^verbatim>\<open>#00FF00\<close>, add the
  lower-case duplicate \<^verbatim>\<open>#ff0000\<close>, delete the first color.
\<close>

definition scenario :: "(env \<times> message) list" where
  "scenario =
     [(env_at 1 three_pages, AddColor (Some ''#FF0000'')),
      (env_at 2 three_pages, AddColor (Some ''#00FF00'')),
      (env_at 3 three_pages, AddColor (Some ''#ff0000'')),
      (env_at 4 three_pages, DeleteColor (Some ''custom_1''))]"

definition sample_url :: string where
  "sample_url = ''https://example.org/1''"

definition page_state :: state where
  "page_state = init_state
     \<lparr>storage_highlights := [sample_url \<mapsto> [\<lparr>groupId = ''g1'', payload = ''text''\<rparr>]],
      storage_meta := [sample_url \<mapsto> \<lparr>title = ''page'', lastUpdated = ''2024-01-01T00:00:00.000Z''\<rparr>]\<rparr>"

section \<open>Helper lemmas\<close>

lemma show_nat_small:
  "show_nat 1 = ''1''" "show_nat 2 = ''2''" "show_nat 3 = ''3''" "show_nat 4 = ''4''"
  "show_nat 5 = ''5''"
  by (simp_all add: show_nat.simps digit_char_def)

lemma stored_update [simp]:
  "stored_customColors (st\<lparr>storage_customColors := Some cs, currentColors := m\<rparr>) = cs"
  by (simp add: stored_customColors_def)

lemma stored_with_colors [simp]: "stored_customColors (with_colors cs) = cs"
  by (simp add: with_colors_def)

lemma current_with_colors [simp]: "currentColors (with_colors cs) = cs"
  by (simp add: with_colors_def)

lemma length_twenty_colors: "length twenty_colors = 20"
  by (simp add: twenty_colors_def)

subsection \<open>Renumbering and splicing\<close>

lemma length_renumber [simp]: "length (renumber cs) = length cs"
  by (simp add: renumber_def)

lemma nth_renumber: "n < length cs \<Longrightarrow> renumber cs ! n = (cs ! n)\<lparr>colorNumber := n + 1\<rparr>"
  by (simp add: renumber_def nth_enumerate_eq)

lemma dense_renumber: "dense_numbers (renumber cs)"
  unfolding dense_numbers_def
  by (rule nth_equalityI) (simp_all add: nth_renumber del: upt_Suc)

lemma dense_append:
  "dense_numbers cs \<Longrightarrow> colorNumber c = length cs + 1 \<Longrightarrow> dense_numbers (cs @ [c])"
  by (simp add: dense_numbers_def)

lemma dense_nth:
  assumes "dense_numbers cs" and "n < length cs"
  shows "colorNumber (cs ! n) = n + 1"
proof -
  have "colorNumber (cs ! n) = map colorNumber cs ! n"
    using assms(2) by simp
  also have "\<dots> = [1..<Suc (length cs)] ! n"
    using assms(1) by (simp only: dense_numbers_def)
  also have "\<dots> = n + 1"
    using assms(2) by (simp del: upt_Suc)
  finally show ?thesis .
qed

lemma length_splice1: "i < length xs \<Longrightarrow> length (splice1 i xs) = length xs - 1"
  by (simp add: splice1_def)

lemma nth_splice1:
  "i < length xs \<Longrightarrow> n < length xs - 1 \<Longrightarrow>
   splice1 i xs ! n = (if n < i then xs ! n else xs ! Suc n)"
  by (auto simp: splice1_def nth_append min_def)

lemma findIndex_Some_less: "findIndex P xs = Some i \<Longrightarrow> i < length xs"
  by (induction xs arbitrary: i) (auto split: if_splits)

lemma findIndex_distinct:
  "distinct (map f xs) \<Longrightarrow> i < length xs \<Longrightarrow> findIndex (\<lambda>x. f x = f (xs ! i)) xs = Some i"
proof (induction xs arbitrary: i)
  case Nil
  then show ?case by simp
next
  case (Cons x xs)
  show ?case
  proof (cases i)
    case 0
    then show ?thesis by simp
  next
    case (Suc j)
    with Cons.prems have "f x \<noteq> f (xs ! j)" and "j < length xs" and "distinct (map f xs)"
      by auto
    with Cons.IH [of j] Suc show ?thesis by simp
  qed
qed

subsection \<open>The invariant of the store\<close>

lemma init_invariant: "store_invariant init_state"
  by (simp add: store_invariant_def init_state_def stored_customColors_def dense_numbers_def
      COLORS_def)

lemma addColor_invariant:
  "store_invariant st \<Longrightarrow> store_invariant (fst (snd (onMessage_addColor e v st)))"
  by (auto simp: onMessage_addColor_def store_invariant_def Let_def newColorObj_def
      dense_append split: option.splits)

lemma deleteColor_invariant:
  "store_invariant st \<Longrightarrow> store_invariant (fst (snd (onMessage_deleteColor e v st)))"
  by (auto simp: onMessage_deleteColor_def store_invariant_def Let_def
      dense_renumber length_splice1 dest!: findIndex_Some_less split: option.splits)

lemma step_invariant:
  "is_add_or_delete m \<Longrightarrow> store_invariant st \<Longrightarrow> store_invariant (fst (snd (onMessage e m st)))"
  by (cases m) (simp_all add: addColor_invariant deleteColor_invariant)

lemma run_invariant:
  "list_all (\<lambda>(e, m). is_add_or_delete m) ops \<Longrightarrow> store_invariant st \<Longrightarrow>
   store_invariant (run ops st)"
  by (induction ops arbitrary: st) (auto simp: step_invariant)

lemma run_take_invariant:
  assumes "list_all (\<lambda>(e, m). is_add_or_delete m) ops"
  shows "store_invariant (run (take n ops) init_state)"
proof -
  have "list_all (\<lambda>(e, m). is_add_or_delete m) (take n ops)"
    using assms by (auto simp: list_all_iff dest: in_set_takeD)
  then show ?thesis
    by (rule run_invariant) (rule init_invariant)
qed

lemma scenario_run:
  "map colorNumber (stored_customColors (run (take 1 scenario) init_state)) = [1]"
  "map colorNumber (stored_customColors (run (take 2 scenario) init_state)) = [1, 2]"
  "map colorNumber (stored_customColors (run (take 3 scenario) init_state)) = [1, 2]"
  "map color (stored_customColors (run (take 3 scenario) init_state)) = [''#FF0000'', ''#00FF00'']"
  "map colorNumber (stored_customColors (run (take 4 scenario) init_state)) = [1]"
  "map color (stored_customColors (run (take 4 scenario) init_state)) = [''#00FF00'']"
  by code_simp+

subsection \<open>What a committed add stores\<close>

lemma addColor_appends:
  assumes "v \<noteq> []" and "length (stored_customColors st) < MAX_CUSTOM_COLORS"
    and "\<not> color_exists (stored_customColors st) v"
  shows "stored_customColors (fst (snd (onMessage e (AddColor (Some v)) st)))
           = stored_customColors st @ [newColorObj e (stored_customColors st) v]"
    and "currentColors (fst (snd (onMessage e (AddColor (Some v)) st)))
           = currentColors st @ [newColorObj e (stored_customColors st) v]"
    and "success (fst (onMessage e (AddColor (Some v)) st))"
  using assms by (simp_all add: onMessage_addColor_def Let_def respond_def)

text \<open>The background handler stores the value as it came; the options page stores it in upper case.\<close>

lemma newColorObj_color: "color (newColorObj e cs v) = v"
  by (simp add: newColorObj_def)

lemma picker_addColor_appends:
  assumes "length (stored_customColors st) < MAX_CUSTOM_COLORS"
    and "\<not> color_exists (stored_customColors st) v"
  shows "map color (stored_customColors (fst (picker_addColor e v st)))
           = map color (stored_customColors st) @ [toUpperCase v]"
  using assms by (simp add: picker_addColor_def Let_def stored_customColors_def)

subsection \<open>Shortcut commands\<close>

lemma targetColor_legacy_each:
  "targetColor ''highlight_yellow'' cs = (if 0 < length cs then Some (color (cs ! 0)) else None)"
  "targetColor ''highlight_green'' cs = (if 1 < length cs then Some (color (cs ! 1)) else None)"
  "targetColor ''highlight_blue'' cs = (if 2 < length cs then Some (color (cs ! 2)) else None)"
  "targetColor ''highlight_pink'' cs = (if 3 < length cs then Some (color (cs ! 3)) else None)"
  "targetColor ''highlight_orange'' cs = (if 4 < length cs then Some (color (cs ! 4)) else None)"
  by (auto simp: targetColor_def Suc_le_eq)

lemma legacy_names:
  "LEGACY_COMMAND_NAMES ! 0 = ''highlight_yellow''"
  "LEGACY_COMMAND_NAMES ! 1 = ''highlight_green''"
  "LEGACY_COMMAND_NAMES ! 2 = ''highlight_blue''"
  "LEGACY_COMMAND_NAMES ! 3 = ''highlight_pink''"
  "LEGACY_COMMAND_NAMES ! 4 = ''highlight_orange''"
  by (simp_all add: LEGACY_COMMAND_NAMES_def)

lemma targetColor_legacy:
  assumes "i < 5"
  shows "targetColor (LEGACY_COMMAND_NAMES ! i) cs
     = (if i < length cs then Some (color (cs ! i)) else None)"
proof -
  consider "i = 0" | "i = 1" | "i = 2" | "i = 3" | "i = 4"
    using assms by arith
  then show ?thesis
    by cases (simp_all only: legacy_names targetColor_legacy_each)
qed

lemma targetColor_custom_each:
  "targetColor ''highlight_custom_1'' cs = (if 5 < length cs then Some (color (cs ! 5)) else None)"
  "targetColor ''highlight_custom_2'' cs = (if 6 < length cs then Some (color (cs ! 6)) else None)"
  "targetColor ''highlight_custom_3'' cs = (if 7 < length cs then Some (color (cs ! 7)) else None)"
  "targetColor ''highlight_custom_4'' cs = (if 8 < length cs then Some (color (cs ! 8)) else None)"
  "targetColor ''highlight_custom_5'' cs = (if 9 < length cs then Some (color (cs ! 9)) else None)"
  by (simp_all add: targetColor_def parseInt_def digit_value_def)

lemma custom_names:
  "''highlight_custom_'' @ show_nat 1 = ''highlight_custom_1''"
  "''highlight_custom_'' @ show_nat 2 = ''highlight_custom_2''"
  "''highlight_custom_'' @ show_nat 3 = ''highlight_custom_3''"
  "''highlight_custom_'' @ show_nat 4 = ''highlight_custom_4''"
  "''highlight_custom_'' @ show_nat 5 = ''highlight_custom_5''"
  by (simp_all add: show_nat.simps digit_char_def)

lemma slot_index:
  "4 + 1 = (5::nat)" "4 + 2 = (6::nat)" "4 + 3 = (7::nat)" "4 + 4 = (8::nat)" "4 + 5 = (9::nat)"
  by simp_all

lemma targetColor_custom:
  assumes "1 \<le> n" and "n \<le> 5"
  shows "targetColor (''highlight_custom_'' @ show_nat n) cs
     = (if 4 + n < length cs then Some (color (cs ! (4 + n))) else None)"
proof -
  consider "n = 1" | "n = 2" | "n = 3" | "n = 4" | "n = 5"
    using assms by arith
  then show ?thesis
    by cases (simp_all only: custom_names targetColor_custom_each slot_index)
qed

lemma onCommand_no_target:
  "targetColor command (currentColors st) = None \<Longrightarrow> onCommand e command st = []"
  by (simp add: onCommand_def split: list.splits)

text \<open>
  With an active tab and a non-empty resolved color, the instruction goes to the active
  tab and nowhere else.
\<close>

lemma onCommand_dispatch:
  assumes "filter tab_active (tabs e) = t # ts"
    and "targetColor command (currentColors st) = Some c" and "c \<noteq> []"
  shows "onCommand e command st = [try_sendMessage t (Highlight c)]"
  using assms by (simp add: onCommand_def)

subsection \<open>Broadcast\<close>

lemma broadcast_map:
  "broadcast ts cs =
     map (\<lambda>t. if tab_listening t then Delivered (tab_id t) (ColorsUpdated cs)
               else DeliveryFailed (tab_id t) (ColorsUpdated cs)) ts"
  by (induction ts) (simp_all add: try_sendMessage_def sendMessage_def)

lemma attempted_broadcast: "attempted (broadcast ts cs) = map tab_id ts"
  by (induction ts) (simp_all add: try_sendMessage_def sendMessage_def)

lemma notified_broadcast: "notified (broadcast ts cs) = map tab_id (filter tab_listening ts)"
  by (induction ts) (simp_all add: try_sendMessage_def sendMessage_def)

lemma attempted_after_write [simp]:
  "attempted (StorageSetCustomColors cs # fx) = attempted fx"
  "attempted (createOrUpdateContextMenus cs # fx) = attempted fx"
  by (simp_all add: createOrUpdateContextMenus_def)

lemma filter_active_listeners:
  "filter tab_active (map (\<lambda>t. t\<lparr>tab_listening := f t\<rparr>) ts)
     = map (\<lambda>t. t\<lparr>tab_listening := f t\<rparr>) (filter tab_active ts)"
  by (induction ts) simp_all

lemma response_state_independent:
  "fst (onMessage (set_listeners f e) m st) = fst (onMessage e m st)
   \<and> fst (snd (onMessage (set_listeners f e) m st)) = fst (snd (onMessage e m st))"
proof (cases m)
  case (AddColor v)
  then show ?thesis
    by (simp add: onMessage_addColor_def set_listeners_def Let_def newColorObj_def
        split: option.splits)
next
  case (DeleteColor v)
  then show ?thesis
    by (simp add: onMessage_deleteColor_def set_listeners_def Let_def split: option.splits)
next
  case ClearCustomColors
  then show ?thesis
    by (simp add: onMessage_clearCustomColors_def set_listeners_def Let_def)
next
  case CustomColorsUpdated
  then show ?thesis
    by (simp add: onMessage_customColorsUpdated_def set_listeners_def Let_def split: prod.splits)
next
  case (SaveHighlights url hs)
  then show ?thesis
    by (cases "filter tab_active (tabs e)")
       (simp_all add: onMessage_saveHighlights_def set_listeners_def Let_def
         filter_active_listeners split: prod.splits)
next
  case (DeleteHighlight url gid nr)
  then show ?thesis
    by (simp add: onMessage_deleteHighlight_def set_listeners_def Let_def split: prod.splits)
next
  case (ClearAllHighlights url nr)
  then show ?thesis
    by (simp add: onMessage_clearAllHighlights_def set_listeners_def Let_def split: prod.splits)
qed

lemma color_message_attempts:
  assumes "is_color_message m" and "snd (snd (onMessage e m st)) \<noteq> []"
  shows "attempted (snd (snd (onMessage e m st))) = map tab_id (tabs e)"
proof (cases m)
  case (AddColor v)
  with assms(2) show ?thesis
    by (auto simp: onMessage_addColor_def Let_def attempted_broadcast
        split: option.splits if_splits)
next
  case (DeleteColor v)
  with assms(2) show ?thesis
    by (auto simp: onMessage_deleteColor_def Let_def attempted_broadcast
        split: option.splits if_splits)
next
  case ClearCustomColors
  with assms(2) show ?thesis
    by (auto simp: onMessage_clearCustomColors_def Let_def attempted_broadcast split: if_splits)
next
  case CustomColorsUpdated
  then show ?thesis
    by (simp add: onMessage_customColorsUpdated_def loadCustomColors_def Let_def
        attempted_broadcast)
qed (use assms(1) in simp_all)

subsection \<open>Highlight data\<close>

lemma cleanup_removes:
  "url \<noteq> [] \<Longrightarrow>
     cleanupEmptyHighlightData url st =
       (st\<lparr>storage_highlights := (storage_highlights st)(url := None),
           storage_meta := (storage_meta st)(url := None)\<rparr>,
        [StorageRemove [url, url @ ''_meta'']])"
  by (simp add: cleanupEmptyHighlightData_def)

text \<open>
  The guard \<^verbatim>\<open>if (!url) return\<close>: for the empty string nothing is removed.
\<close>

lemma cleanup_empty_url: "cleanupEmptyHighlightData [] st = (st, [])"
  by (simp add: cleanupEmptyHighlightData_def)

section \<open>Adding a color\<close>

text \<open>
  C1, as stated (a duplicate is refused with \<^verbatim>\<open>success = false\<close> and a duplicate-color
  error), fails: with \<^verbatim>\<open>#FF0000\<close> stored, the request for \<^verbatim>\<open>#ff0000\<close> matches it
  case-insensitively and is answered with \<^verbatim>\<open>success: true\<close> and no \<^verbatim>\<open>error\<close>.
\<close>

theorem addColor_duplicate_counterexample:
  "color_exists (stored_customColors (with_colors [sample_color 1 ''#FF0000''])) ''#ff0000''
   \<and> success (fst (onMessage (env_at 2 three_pages) (AddColor (Some ''#ff0000''))
        (with_colors [sample_color 1 ''#FF0000'']))) = True
   \<and> error (fst (onMessage (env_at 2 three_pages) (AddColor (Some ''#ff0000''))
        (with_colors [sample_color 1 ''#FF0000'']))) = None"
  by (simp add: onMessage_addColor_def Let_def respond_def color_exists_def sample_color_def
      toLowerCase_def lower_char_def upper_letters_def lower_letters_def MAX_CUSTOM_COLORS_def)

text \<open>
  C1 (amended). For every collection below the maximum and every \<^verbatim>\<open>addColor\<close> request
  whose non-empty color value equals, case-insensitively, the color of a stored record, the
  handler adds nothing: storage and the in-memory mirror are unchanged, nothing is written,
  rebuilt or broadcast, and the response is \<^verbatim>\<open>{ success: true, colors: currentColors }\<close>
  without an \<^verbatim>\<open>error\<close> field.
\<close>

theorem addColor_duplicate_is_noop:
  assumes "color_exists (stored_customColors st) v" and "v \<noteq> []"
    and "length (stored_customColors st) < MAX_CUSTOM_COLORS"
  shows "success (fst (onMessage e (AddColor (Some v)) st)) = True
    \<and> error (fst (onMessage e (AddColor (Some v)) st)) = None
    \<and> colors (fst (onMessage e (AddColor (Some v)) st)) = Some (currentColors st)
    \<and> snd (onMessage e (AddColor (Some v)) st) = (st, [])"
  using assms by (simp add: onMessage_addColor_def respond_def)

theorem addColor_duplicate_is_noop_witness:
  "color_exists (stored_customColors (with_colors [sample_color 1 ''#FF0000''])) ''#ff0000''
   \<and> ''#ff0000'' \<noteq> []
   \<and> length (stored_customColors (with_colors [sample_color 1 ''#FF0000''])) < MAX_CUSTOM_COLORS
   \<and> snd (onMessage (env_at 2 three_pages) (AddColor (Some ''#ff0000''))
        (with_colors [sample_color 1 ''#FF0000'']))
      = (with_colors [sample_color 1 ''#FF0000''], [])"
proof -
  have h1: "color_exists (stored_customColors (with_colors [sample_color 1 ''#FF0000''])) ''#ff0000''"
    by (simp add: color_exists_def sample_color_def toLowerCase_def lower_char_def
        upper_letters_def lower_letters_def)
  have h2: "''#ff0000'' \<noteq> []"
    by simp
  have h3: "length (stored_customColors (with_colors [sample_color 1 ''#FF0000''])) < MAX_CUSTOM_COLORS"
    by (simp add: MAX_CUSTOM_COLORS_def)
  show ?thesis
    using h1 h3 addColor_duplicate_is_noop [OF h1 h2 h3, of "env_at 2 three_pages"] by simp
qed

text \<open>
  C2, as stated (every \<^verbatim>\<open>addColor\<close> request on a full collection fails with the
  capacity error), fails for a request without a color value: the handler returns
  \<^verbatim>\<open>{ success: false }\<close> before it reads storage, so the response has no \<^verbatim>\<open>error\<close>.
\<close>

theorem addColor_at_capacity_counterexample:
  "length (stored_customColors (with_colors twenty_colors)) = MAX_CUSTOM_COLORS
   \<and> error (fst (onMessage (env_at 0 three_pages) (AddColor None) (with_colors twenty_colors)))
      = None"
  by (simp add: onMessage_addColor_def respond_def length_twenty_colors MAX_CUSTOM_COLORS_def)

text \<open>
  C2 (amended). For every collection whose size equals the maximum of 20, every
  \<^verbatim>\<open>addColor\<close> request that carries a non-empty color value fails with the capacity
  error (\<^verbatim>\<open>success = false\<close>, \<^verbatim>\<open>error = 'Maximum color limit reached'\<close>), and the
  collection is unchanged: storage and mirror are as before, nothing is written, and the
  size stays 20.
\<close>

theorem addColor_at_capacity:
  assumes "length (stored_customColors st) = MAX_CUSTOM_COLORS" and "v \<noteq> []"
  shows "success (fst (onMessage e (AddColor (Some v)) st)) = False
    \<and> error (fst (onMessage e (AddColor (Some v)) st)) = Some ''Maximum color limit reached''
    \<and> snd (onMessage e (AddColor (Some v)) st) = (st, [])
    \<and> length (stored_customColors (fst (snd (onMessage e (AddColor (Some v)) st)))) = 20"
  using assms by (simp add: onMessage_addColor_def respond_def MAX_CUSTOM_COLORS_def)

theorem addColor_at_capacity_witness:
  "length (stored_customColors (with_colors twenty_colors)) = MAX_CUSTOM_COLORS
   \<and> ''#ABCDEF'' \<noteq> []
   \<and> success (fst (onMessage (env_at 21 three_pages) (AddColor (Some ''#ABCDEF''))
        (with_colors twenty_colors))) = False
   \<and> error (fst (onMessage (env_at 21 three_pages) (AddColor (Some ''#ABCDEF''))
        (with_colors twenty_colors))) = Some ''Maximum color limit reached''
   \<and> snd (onMessage (env_at 21 three_pages) (AddColor (Some ''#ABCDEF''))
        (with_colors twenty_colors)) = (with_colors twenty_colors, [])"
proof -
  have h1: "length (stored_customColors (with_colors twenty_colors)) = MAX_CUSTOM_COLORS"
    by (simp add: length_twenty_colors MAX_CUSTOM_COLORS_def)
  have h2: "''#ABCDEF'' \<noteq> []"
    by simp
  show ?thesis
    using h1 addColor_at_capacity [OF h1 h2, of "env_at 21 three_pages"] by simp
qed

text \<open>
  C10. An \<^verbatim>\<open>addColor\<close> request whose \<^verbatim>\<open>color\<close> field is absent or the empty string is
  answered with \<^verbatim>\<open>success = false\<close> and no \<^verbatim>\<open>error\<close> field; the persisted collection
  and the in-memory mirror are as before, and nothing is written, rebuilt or sent.
\<close>

theorem addColor_missing_value:
  "success (fst (onMessage e (AddColor None) st)) = False
   \<and> error (fst (onMessage e (AddColor None) st)) = None
   \<and> snd (onMessage e (AddColor None) st) = (st, [])
   \<and> success (fst (onMessage e (AddColor (Some [])) st)) = False
   \<and> error (fst (onMessage e (AddColor (Some [])) st)) = None
   \<and> snd (onMessage e (AddColor (Some [])) st) = (st, [])"
  by (simp add: onMessage_addColor_def respond_def)

section \<open>Dense numbering\<close>

text \<open>
  C3. Start from the empty collection and handle any sequence of \<^verbatim>\<open>addColor\<close> and
  \<^verbatim>\<open>deleteColor\<close> requests. After each of them (after the first \<open>n\<close>, for every
  \<open>n\<close>) the multiset of the \<open>colorNumber\<close> values is exactly \<open>{1, ..., N}\<close> for the
  size \<open>N\<close> of the collection, in storage and in the mirror, which agree; the size never
  exceeds the maximum.
\<close>

theorem colorNumbers_dense:
  assumes "list_all (\<lambda>(e, m). is_add_or_delete m) ops" and "n \<le> length ops"
  shows "mset (map colorNumber (stored_customColors (run (take n ops) init_state)))
           = mset [1..<Suc (length (stored_customColors (run (take n ops) init_state)))]
    \<and> mset (map colorNumber (currentColors (run (take n ops) init_state)))
           = mset [1..<Suc (length (currentColors (run (take n ops) init_state)))]
    \<and> currentColors (run (take n ops) init_state)
           = stored_customColors (run (take n ops) init_state)
    \<and> length (stored_customColors (run (take n ops) init_state)) \<le> MAX_CUSTOM_COLORS"
proof -
  have "store_invariant (run (take n ops) init_state)"
    using assms(1) by (rule run_take_invariant)
  then show ?thesis
    by (simp add: store_invariant_def dense_numbers_def del: upt_Suc)
qed

theorem colorNumbers_dense_witness:
  "list_all (\<lambda>(e, m). is_add_or_delete m) scenario \<and> 4 \<le> length scenario
   \<and> mset (map colorNumber (stored_customColors (run (take 4 scenario) init_state)))
        = mset [1..<Suc 1]
   \<and> length (stored_customColors (run (take 4 scenario) init_state)) = 1
   \<and> map color (stored_customColors (run (take 3 scenario) init_state))
        = [''#FF0000'', ''#00FF00'']"
proof -
  have h: "list_all (\<lambda>(e, m). is_add_or_delete m) scenario" and l: "4 \<le> length scenario"
    by (simp_all add: scenario_def)
  have n: "length (stored_customColors (run (take 4 scenario) init_state)) = 1"
    using scenario_run(5) [THEN arg_cong, of length] by simp
  show ?thesis
    using h l n scenario_run(4) colorNumbers_dense [OF h l] by simp
qed

section \<open>Deleting a color\<close>

text \<open>
  C4. Take a collection of size \<open>N\<close> (dense numbers, distinct non-empty ids) and delete
  the record at position \<open>k\<close> (1-based) by its id. Every record that was at a position
  \<open>j\<close> in \<open>k+1..N\<close> had number \<open>j\<close>, now stands at position \<open>j - 1\<close> and is the same
  record with number \<open>j - 1\<close>; every record that was at a position below \<open>k\<close> is where it
  was, with its number and every other field as before. The mirror is the new collection.
\<close>

theorem deleteColor_shifts_numbers:
  assumes dense: "map colorNumber cs = [1..<Suc (length cs)]"
    and ids: "distinct (map id_of cs)"
    and k: "1 \<le> k" "k \<le> length cs"
    and nonempty: "id_of (cs ! (k - 1)) \<noteq> []"
    and stored: "stored_customColors st = cs"
    and after: "st' = fst (snd (onMessage e (DeleteColor (Some (id_of (cs ! (k - 1))))) st))"
  shows "length (stored_customColors st') = length cs - 1
    \<and> currentColors st' = stored_customColors st'
    \<and> (\<forall>j. k < j \<and> j \<le> length cs \<longrightarrow>
          colorNumber (cs ! (j - 1)) = j
          \<and> stored_customColors st' ! (j - 2) = (cs ! (j - 1))\<lparr>colorNumber := j - 1\<rparr>)
    \<and> (\<forall>j. 1 \<le> j \<and> j < k \<longrightarrow> stored_customColors st' ! (j - 1) = cs ! (j - 1))"
proof -
  let ?i = "k - 1"
  have i: "?i < length cs" using k by simp
  have d: "dense_numbers cs" using dense by (simp only: dense_numbers_def)
  have found: "findIndex (\<lambda>c. id_of c = id_of (cs ! ?i)) cs = Some ?i"
    using ids i by (rule findIndex_distinct)
  have st': "stored_customColors st' = renumber (splice1 ?i cs)"
    "currentColors st' = renumber (splice1 ?i cs)"
    using nonempty stored found by (simp_all add: after onMessage_deleteColor_def Let_def)
  have len: "length (splice1 ?i cs) = length cs - 1"
    using i by (rule length_splice1)
  have later: "colorNumber (cs ! (j - 1)) = j
      \<and> stored_customColors st' ! (j - 2) = (cs ! (j - 1))\<lparr>colorNumber := j - 1\<rparr>"
    if "k < j" "j \<le> length cs" for j
  proof -
    have b: "j - 2 < length cs - 1" using that k by simp
    moreover have "\<not> j - 2 < ?i" using that k by simp
    moreover have "Suc (j - 2) = j - 1" using that k by simp
    ultimately have "splice1 ?i cs ! (j - 2) = cs ! (j - 1)"
      using nth_splice1 [OF i, of "j - 2"] by simp
    moreover have "j - 2 < length (splice1 ?i cs)" using len b by simp
    moreover have "j - 2 + 1 = j - 1" using that k by simp
    ultimately have "renumber (splice1 ?i cs) ! (j - 2) = (cs ! (j - 1))\<lparr>colorNumber := j - 1\<rparr>"
      by (simp add: nth_renumber)
    moreover have "colorNumber (cs ! (j - 1)) = j"
      using dense_nth [OF d, of "j - 1"] that k by simp
    ultimately show ?thesis by (simp add: st')
  qed
  have earlier: "stored_customColors st' ! (j - 1) = cs ! (j - 1)" if "1 \<le> j" "j < k" for j
  proof -
    have b: "j - 1 < length cs - 1" using that k by simp
    moreover have "j - 1 < ?i" using that k by simp
    ultimately have "splice1 ?i cs ! (j - 1) = cs ! (j - 1)"
      using nth_splice1 [OF i, of "j - 1"] by simp
    moreover have "j - 1 < length (splice1 ?i cs)" using len b by simp
    moreover have "j - 1 + 1 = j" using that by simp
    ultimately have "renumber (splice1 ?i cs) ! (j - 1) = (cs ! (j - 1))\<lparr>colorNumber := j\<rparr>"
      by (simp add: nth_renumber)
    moreover have "colorNumber (cs ! (j - 1)) = j"
      using dense_nth [OF d, of "j - 1"] that k by simp
    ultimately show ?thesis by (simp add: st')
  qed
  show ?thesis
    using later earlier len by (simp add: st')
qed

theorem deleteColor_shifts_numbers_witness:
  "map colorNumber three_colors = [1..<Suc (length three_colors)]
   \<and> distinct (map id_of three_colors)
   \<and> (1::nat) \<le> 2 \<and> 2 \<le> length three_colors
   \<and> id_of (three_colors ! (2 - 1)) = ''custom_2''
   \<and> stored_customColors (with_colors three_colors) = three_colors
   \<and> length (stored_customColors (fst (snd (onMessage (env_at 9 three_pages)
        (DeleteColor (Some ''custom_2'')) (with_colors three_colors))))) = 2
   \<and> stored_customColors (fst (snd (onMessage (env_at 9 three_pages)
        (DeleteColor (Some ''custom_2'')) (with_colors three_colors)))) ! 1
      = (sample_color 3 ''#0000FF'')\<lparr>colorNumber := 2\<rparr>
   \<and> stored_customColors (fst (snd (onMessage (env_at 9 three_pages)
        (DeleteColor (Some ''custom_2'')) (with_colors three_colors)))) ! 0
      = sample_color 1 ''#FF0000''"
proof -
  define st' where "st' = fst (snd (onMessage (env_at 9 three_pages)
        (DeleteColor (Some (id_of (three_colors ! (2 - 1))))) (with_colors three_colors)))"
  have h1: "map colorNumber three_colors = [1..<Suc (length three_colors)]"
    by (simp add: three_colors_def sample_color_def)
  have h2: "distinct (map id_of three_colors)"
    by (simp add: three_colors_def sample_color_def show_nat.simps digit_char_def)
  have h3: "(1::nat) \<le> 2" and h4: "2 \<le> length three_colors"
    by (simp_all add: three_colors_def)
  have name: "id_of (three_colors ! (2 - 1)) = ''custom_2''"
    by (simp add: three_colors_def sample_color_def show_nat.simps digit_char_def)
  then have h5: "id_of (three_colors ! (2 - 1)) \<noteq> []"
    by simp
  have h6: "stored_customColors (with_colors three_colors) = three_colors"
    by simp
  note r = deleteColor_shifts_numbers [OF h1 h2 h3 h4 h5 h6 st'_def]
  from r have len: "length (stored_customColors st') = length three_colors - 1"
    by (rule conjunct1)
  have "2 < (3::nat) \<and> 3 \<le> length three_colors"
    by (simp add: three_colors_def)
  with r [THEN conjunct2, THEN conjunct2, THEN conjunct1, rule_format, of 3]
  have "stored_customColors st' ! (3 - 2) = (three_colors ! (3 - 1))\<lparr>colorNumber := 3 - 1\<rparr>"
    by simp
  then have later: "stored_customColors st' ! 1 = (sample_color 3 ''#0000FF'')\<lparr>colorNumber := 2\<rparr>"
    by (simp add: three_colors_def)
  have "1 \<le> (1::nat) \<and> 1 < (2::nat)"
    by simp
  with r [THEN conjunct2, THEN conjunct2, THEN conjunct2, rule_format, of 1]
  have "stored_customColors st' ! (1 - 1) = three_colors ! (1 - 1)"
    by simp
  then have earlier: "stored_customColors st' ! 0 = sample_color 1 ''#FF0000''"
    by (simp add: three_colors_def)
  show ?thesis
    using h1 h2 h4 name len later earlier
    by (simp add: st'_def three_colors_def)
qed

section \<open>Casing of the stored color\<close>

text \<open>
  C5. On the empty collection the background handler stores the requested value
  \<^verbatim>\<open>#ff0000\<close> as it came, while the options page stores \<^verbatim>\<open>#FF0000\<close> for the same
  request: the record written by the \<^verbatim>\<open>addColor\<close> message is not in upper case.
\<close>

theorem addColor_stores_value_as_given:
  "map color (stored_customColors (fst (snd
      (onMessage (env_at 1 three_pages) (AddColor (Some ''#ff0000'')) init_state))))
     = [''#ff0000'']
   \<and> toUpperCase ''#ff0000'' = ''#FF0000''
   \<and> map color (stored_customColors (fst
      (picker_addColor (env_at 1 three_pages) ''#ff0000'' init_state)))
     = [''#FF0000'']"
  by (simp add: onMessage_addColor_def picker_addColor_def Let_def newColorObj_def
      init_state_def stored_customColors_def color_exists_def MAX_CUSTOM_COLORS_def
      toUpperCase_def upper_char_def upper_letters_def lower_letters_def)

section \<open>Shortcut commands\<close>

text \<open>
  C6. The five legacy command names resolve to the colors at positions 0 to 4 of the
  mirror and \<^verbatim>\<open>highlight_custom_N\<close>, for \<open>N\<close> from 1 to 5, to the color at position
  \<open>4 + N\<close>; when the mirror has no entry at that position, nothing is resolved and the
  listener dispatches no highlight instruction.
\<close>

theorem shortcut_positions:
  "(\<forall>i<5. targetColor (LEGACY_COMMAND_NAMES ! i) (currentColors st)
        = (if i < length (currentColors st) then Some (color (currentColors st ! i)) else None))
   \<and> (\<forall>n. 1 \<le> n \<and> n \<le> 5 \<longrightarrow>
        targetColor (''highlight_custom_'' @ show_nat n) (currentColors st)
        = (if 4 + n < length (currentColors st) then Some (color (currentColors st ! (4 + n)))
           else None))
   \<and> (\<forall>i<5. length (currentColors st) \<le> i \<longrightarrow> onCommand e (LEGACY_COMMAND_NAMES ! i) st = [])
   \<and> (\<forall>n. 1 \<le> n \<and> n \<le> 5 \<and> length (currentColors st) \<le> 4 + n \<longrightarrow>
        onCommand e (''highlight_custom_'' @ show_nat n) st = [])"
proof (intro conjI allI impI)
  fix i :: nat assume "i < 5"
  then show "targetColor (LEGACY_COMMAND_NAMES ! i) (currentColors st)
        = (if i < length (currentColors st) then Some (color (currentColors st ! i)) else None)"
    by (rule targetColor_legacy)
next
  fix n :: nat assume "1 \<le> n \<and> n \<le> 5"
  then show "targetColor (''highlight_custom_'' @ show_nat n) (currentColors st)
        = (if 4 + n < length (currentColors st) then Some (color (currentColors st ! (4 + n)))
           else None)"
    using targetColor_custom [of n] by blast
next
  fix i :: nat assume "i < 5" and "length (currentColors st) \<le> i"
  then have "targetColor (LEGACY_COMMAND_NAMES ! i) (currentColors st) = None"
    using targetColor_legacy [of i "currentColors st"] by simp
  then show "onCommand e (LEGACY_COMMAND_NAMES ! i) st = []"
    by (rule onCommand_no_target)
next
  fix n :: nat assume "1 \<le> n \<and> n \<le> 5 \<and> length (currentColors st) \<le> 4 + n"
  then have "targetColor (''highlight_custom_'' @ show_nat n) (currentColors st) = None"
    using targetColor_custom [of n "currentColors st"] by simp
  then show "onCommand e (''highlight_custom_'' @ show_nat n) st = []"
    by (rule onCommand_no_target)
qed

text \<open>The legacy second-position command on a collection of size 1.\<close>

theorem shortcut_positions_witness:
  "LEGACY_COMMAND_NAMES ! 1 = ''highlight_green''
   \<and> length (currentColors (with_colors [sample_color 1 ''#FF0000''])) = 1
   \<and> onCommand (env_at 0 three_pages) ''highlight_green''
        (with_colors [sample_color 1 ''#FF0000'']) = []"
proof -
  have n: "LEGACY_COMMAND_NAMES ! 1 = ''highlight_green''"
    by (simp add: LEGACY_COMMAND_NAMES_def)
  have l: "length (currentColors (with_colors [sample_color 1 ''#FF0000''])) = 1"
    by simp
  have "(1::nat) < 5" by simp
  with shortcut_positions [of "with_colors [sample_color 1 ''#FF0000'']" "env_at 0 three_pages"] l
  have "onCommand (env_at 0 three_pages) (LEGACY_COMMAND_NAMES ! 1)
          (with_colors [sample_color 1 ''#FF0000'']) = []"
    by simp
  with n l show ?thesis by simp
qed

section \<open>Broadcast\<close>

text \<open>
  C7. A broadcast attempts one delivery to every open page, in order, whatever the
  outcome of the others, and reaches exactly the pages with a listener. Whenever a color
  message made the handler write or broadcast at all, it attempted every open page. The
  response of a request and the state it leaves do not depend on which pages have a
  listener.
\<close>

theorem broadcast_isolates_failures:
  "attempted (broadcast ts cs) = map tab_id ts
   \<and> notified (broadcast ts cs) = map tab_id (filter tab_listening ts)
   \<and> (is_color_message m \<and> snd (snd (onMessage e m st)) \<noteq> []
        \<longrightarrow> attempted (snd (snd (onMessage e m st))) = map tab_id (tabs e))
   \<and> fst (onMessage (set_listeners f e) m st) = fst (onMessage e m st)
   \<and> fst (snd (onMessage (set_listeners f e) m st)) = fst (snd (onMessage e m st))"
  using attempted_broadcast [of ts cs] notified_broadcast [of ts cs]
    color_message_attempts [of m e st] response_state_independent [of f e m st]
  by blast

text \<open>Three open pages, the second without a listener, and a color added.\<close>

theorem broadcast_isolates_failures_witness:
  "attempted (broadcast three_pages three_colors) = [1, 2, 3]
   \<and> notified (broadcast three_pages three_colors) = [1, 3]
   \<and> is_color_message (AddColor (Some ''#FF0000''))
   \<and> attempted (snd (snd (onMessage (env_at 1 three_pages) (AddColor (Some ''#FF0000''))
        init_state))) = [1, 2, 3]
   \<and> success (fst (onMessage (env_at 1 three_pages) (AddColor (Some ''#FF0000'')) init_state))
   \<and> fst (onMessage (set_listeners (\<lambda>t. True) (env_at 1 three_pages))
        (AddColor (Some ''#FF0000'')) init_state)
      = fst (onMessage (env_at 1 three_pages) (AddColor (Some ''#FF0000'')) init_state)"
proof -
  have ids: "map tab_id three_pages = [1, 2, 3]"
    and listening: "map tab_id (filter tab_listening three_pages) = [1, 3]"
    by (simp_all add: three_pages_def page_def)
  have wrote: "snd (snd (onMessage (env_at 1 three_pages) (AddColor (Some ''#FF0000''))
        init_state)) \<noteq> []"
    and ok: "success (fst (onMessage (env_at 1 three_pages) (AddColor (Some ''#FF0000''))
        init_state))"
    by (simp_all add: onMessage_addColor_def Let_def init_state_def stored_customColors_def
        color_exists_def MAX_CUSTOM_COLORS_def respond_def)
  have tabs: "tabs (env_at 1 three_pages) = three_pages"
    by (simp add: env_at_def)
  show ?thesis
    using broadcast_isolates_failures [of three_pages three_colors "AddColor (Some ''#FF0000'')"
        "env_at 1 three_pages" init_state "\<lambda>t. True"] ids listening wrote ok tabs
    by simp
qed

section \<open>Clearing an empty collection\<close>

text \<open>
  C8. A \<^verbatim>\<open>clearCustomColors\<close> request on an already empty collection is answered
  with \<^verbatim>\<open>{ success: true, noCustomColors: true }\<close>; the state is as before and the
  handler performs no storage write (no effect at all).
\<close>

theorem clearCustomColors_already_empty:
  assumes "stored_customColors st = []"
  shows "success (fst (onMessage e ClearCustomColors st))
    \<and> noCustomColors (fst (onMessage e ClearCustomColors st))
    \<and> snd (onMessage e ClearCustomColors st) = (st, [])"
  using assms by (simp add: onMessage_clearCustomColors_def respond_def)

theorem clearCustomColors_already_empty_witness:
  "stored_customColors init_state = []
   \<and> success (fst (onMessage (env_at 0 three_pages) ClearCustomColors init_state))
   \<and> noCustomColors (fst (onMessage (env_at 0 three_pages) ClearCustomColors init_state))
   \<and> snd (onMessage (env_at 0 three_pages) ClearCustomColors init_state) = (init_state, [])"
proof -
  have h: "stored_customColors init_state = []"
    by (simp add: stored_customColors_def init_state_def)
  show ?thesis
    using h clearCustomColors_already_empty [OF h, of "env_at 0 three_pages"] by simp
qed

section \<open>Empty highlight collections\<close>

text \<open>
  C9. For every URL (a non-empty string): \<^verbatim>\<open>saveHighlights\<close> with an empty list,
  \<^verbatim>\<open>deleteHighlight\<close> when no group is left after the removal, and
  \<^verbatim>\<open>clearAllHighlights\<close> each remove the URL's data key and its \<^verbatim>\<open>_meta\<close> key in one
  call, and neither is in storage afterwards.
\<close>

theorem empty_highlights_removed_together:
  assumes "url \<noteq> []"
  shows "removed_together url (onMessage e (SaveHighlights url []) st)
    \<and> (filter (\<lambda>g. groupId g \<noteq> gid)
          (case storage_highlights st url of None \<Rightarrow> [] | Some hs \<Rightarrow> hs) = []
        \<longrightarrow> removed_together url (onMessage e (DeleteHighlight url gid nr) st))
    \<and> removed_together url (onMessage e (ClearAllHighlights url nr) st)"
  using assms
  by (simp add: removed_together_def onMessage_saveHighlights_def onMessage_deleteHighlight_def
      onMessage_clearAllHighlights_def Let_def cleanup_removes)

theorem empty_highlights_removed_together_witness:
  "sample_url \<noteq> []
   \<and> storage_highlights page_state sample_url \<noteq> None
   \<and> storage_meta page_state sample_url \<noteq> None
   \<and> removed_together sample_url (onMessage (env_at 5 three_pages)
        (SaveHighlights sample_url []) page_state)
   \<and> removed_together sample_url (onMessage (env_at 5 three_pages)
        (DeleteHighlight sample_url ''g1'' True) page_state)
   \<and> removed_together sample_url (onMessage (env_at 5 three_pages)
        (ClearAllHighlights sample_url True) page_state)"
proof -
  have h: "sample_url \<noteq> []"
    by (simp add: sample_url_def)
  have stored: "storage_highlights page_state sample_url
      = Some [\<lparr>groupId = ''g1'', payload = ''text''\<rparr>]"
    and meta: "storage_meta page_state sample_url \<noteq> None"
    by (simp_all add: page_state_def)
  show ?thesis
    using h stored meta
      empty_highlights_removed_together [OF h, of "env_at 5 three_pages" page_state "''g1''" True]
    by simp
qed

end
